theory Spec2Isabelle
  imports Complex_Main
begin

section \<open>Number model\<close>

text \<open>
  The program computes on IEEE doubles.  A finite double is modelled by the real
  number it denotes; rounding and overflow are not modelled.  The wave functions
  below never divide by zero on real arguments (every divisor is a positive
  constant, a square root of a value that is at least 0.05, or a product of
  positive values), so they are modelled on \<open>real\<close> directly.  The rider
  integrator divides by the timestep, which can be zero; the values that flow
  through that division are modelled by \<open>jsnum\<close>, which adds the two
  infinities and NaN with the IEEE rules for them (signed zeros are identified).
\<close>

datatype jsnum = Fin real | PosInf | NegInf | NaN

fun isNaN :: "jsnum \<Rightarrow> bool" where
  "isNaN NaN = True"
| "isNaN _ = False"

fun jneg :: "jsnum \<Rightarrow> jsnum" where
  "jneg (Fin a) = Fin (- a)"
| "jneg PosInf = NegInf"
| "jneg NegInf = PosInf"
| "jneg NaN = NaN"

fun jadd :: "jsnum \<Rightarrow> jsnum \<Rightarrow> jsnum" where
  "jadd NaN _ = NaN"
| "jadd _ NaN = NaN"
| "jadd (Fin a) (Fin b) = Fin (a + b)"
| "jadd PosInf NegInf = NaN"
| "jadd NegInf PosInf = NaN"
| "jadd PosInf _ = PosInf"
| "jadd NegInf _ = NegInf"
| "jadd (Fin a) PosInf = PosInf"
| "jadd (Fin a) NegInf = NegInf"

definition jsub :: "jsnum \<Rightarrow> jsnum \<Rightarrow> jsnum" where
  "jsub a b = jadd a (jneg b)"

text \<open>The sign of a value that is not NaN: \<open>1\<close>, \<open>0\<close> or \<open>-1\<close>.\<close>

fun jsign :: "jsnum \<Rightarrow> real" where
  "jsign (Fin a) = sgn a"
| "jsign PosInf = 1"
| "jsign NegInf = - 1"
| "jsign NaN = 0"

definition infOfSign :: "real \<Rightarrow> jsnum" where
  "infOfSign sg = (if sg = 0 then NaN else if 0 < sg then PosInf else NegInf)"

fun jmul :: "jsnum \<Rightarrow> jsnum \<Rightarrow> jsnum" where
  "jmul NaN _ = NaN"
| "jmul _ NaN = NaN"
| "jmul (Fin a) (Fin b) = Fin (a * b)"
| "jmul a b = infOfSign (jsign a * jsign b)"

fun jdiv :: "jsnum \<Rightarrow> jsnum \<Rightarrow> jsnum" where
  "jdiv NaN _ = NaN"
| "jdiv _ NaN = NaN"
| "jdiv (Fin a) (Fin b) = (if b = 0 then infOfSign (sgn a) else Fin (a / b))"
| "jdiv (Fin a) _ = Fin 0"
| "jdiv a (Fin b) = (if b < 0 then jneg a else a)"
| "jdiv _ _ = NaN"

text \<open>\<open>Math.min\<close> and \<open>Math.max\<close>: NaN if an argument is NaN.\<close>

fun jle :: "jsnum \<Rightarrow> jsnum \<Rightarrow> bool" where
  "jle NaN _ = False"
| "jle _ NaN = False"
| "jle NegInf _ = True"
| "jle _ PosInf = True"
| "jle (Fin a) (Fin b) = (a \<le> b)"
| "jle _ _ = False"

definition Math_min :: "jsnum \<Rightarrow> jsnum \<Rightarrow> jsnum" where
  "Math_min a b = (if isNaN a \<or> isNaN b then NaN else if jle a b then a else b)"

definition Math_max :: "jsnum \<Rightarrow> jsnum \<Rightarrow> jsnum" where
  "Math_max a b = (if isNaN a \<or> isNaN b then NaN else if jle a b then b else a)"

text \<open>
  Library functions of three.js (\<open>THREE.MathUtils\<close>), by their definitions there:
  \<open>clamp(value, min, max) = Math.max(min, Math.min(max, value))\<close> and
  \<open>lerp(x, y, t) = (1 - t) * x + t * y\<close>.
\<close>

definition clamp :: "jsnum \<Rightarrow> jsnum \<Rightarrow> jsnum \<Rightarrow> jsnum" where
  "clamp v lo hi = Math_max lo (Math_min hi v)"

definition lerp :: "real \<Rightarrow> real \<Rightarrow> real \<Rightarrow> real" where
  "lerp x y t = (1 - t) * x + t * y"

section \<open>WavePhysicsBridge: the physics-side surface\<close>

record WaveDef =
  dirX :: real
  dirZ :: real
  steepness :: real
  wavelength :: real
  amplitude :: real
  speed :: real

definition WAVES :: "WaveDef list" where
  "WAVES =
    [\<lparr>dirX = 0.0, dirZ = 1.0, steepness = 0.12, wavelength = 25.0, amplitude = 1.2, speed = 4.0\<rparr>,
     \<lparr>dirX = 0.15, dirZ = 0.99, steepness = 0.08, wavelength = 15.0, amplitude = 0.4, speed = 3.5\<rparr>,
     \<lparr>dirX = - 0.2, dirZ = 0.98, steepness = 0.06, wavelength = 8.0, amplitude = 0.15, speed = 5.0\<rparr>]"

definition SHORE_ANGLE :: real where "SHORE_ANGLE = 0.42"
definition DEPTH_DEEP :: real where "DEPTH_DEEP = 10.0"
definition DEPTH_SHALLOW :: real where "DEPTH_SHALLOW = 1.5"
definition SHORE_Z_CENTER :: real where "SHORE_Z_CENTER = 30.0"
definition DEPTH_GRADIENT :: real where "DEPTH_GRADIENT = 0.12"

definition WAVE_COUNT :: nat where "WAVE_COUNT = length WAVES"

definition getDepth :: "real \<Rightarrow> real \<Rightarrow> real" where
  "getDepth x z =
    (let effectiveZ = z - x * SHORE_ANGLE;
         rawDepth = DEPTH_DEEP - (effectiveZ - SHORE_Z_CENTER) * DEPTH_GRADIENT
     in max DEPTH_SHALLOW (min DEPTH_DEEP rawDepth))"

definition smoothstep :: "real \<Rightarrow> real \<Rightarrow> real \<Rightarrow> real" where
  "smoothstep edge0 edge1 x =
    (let t = max 0 (min ((x - edge0) / (edge1 - edge0)) 1.0)
     in t * t * (3 - 2 * t))"

text \<open>
  The body of the loop over the wave components, one definition per local of the
  source: \<open>effectiveShoal\<close>, the shoaled amplitude \<open>a\<close> and steepness, the wave
  number \<open>k\<close>, the phase \<open>f\<close> and the factor \<open>q\<close>.
\<close>

definition effectiveShoal :: "nat \<Rightarrow> real \<Rightarrow> real \<Rightarrow> real" where
  "effectiveShoal i x z =
    (let depth = getDepth x z;
         depthRatio = max (depth / DEPTH_DEEP) 0.05;
         shoalFactor = 1.0 / sqrt depthRatio;
         shoalWeight = (if i = 0 then 1.0 else 0.3)
     in 1.0 + (shoalFactor - 1.0) * shoalWeight)"

definition waveA :: "nat \<Rightarrow> real \<Rightarrow> real \<Rightarrow> real" where
  "waveA i x z = amplitude (WAVES ! i) * effectiveShoal i x z"

definition waveSteepness :: "nat \<Rightarrow> real \<Rightarrow> real \<Rightarrow> real" where
  "waveSteepness i x z = min (steepness (WAVES ! i) * effectiveShoal i x z) 0.4"

definition waveK :: "nat \<Rightarrow> real" where
  "waveK i = (2 * pi) / wavelength (WAVES ! i)"

definition waveF :: "nat \<Rightarrow> real \<Rightarrow> real \<Rightarrow> real \<Rightarrow> real" where
  "waveF i x z time =
    (let w = WAVES ! i
     in waveK i * (dirX w * x + dirZ w * z - WaveDef.speed w * time))"

definition waveQ :: "nat \<Rightarrow> real \<Rightarrow> real \<Rightarrow> real" where
  "waveQ i x z =
    max 0 (min (waveSteepness i x z / (waveK i * waveA i x z * real WAVE_COUNT)) 0.5)"

definition waveBody :: "real \<Rightarrow> real \<Rightarrow> real \<Rightarrow> nat \<Rightarrow> real \<times> real \<times> real \<Rightarrow> real \<times> real \<times> real" where
  "waveBody x z time i r =
    (case r of (rx, ry, rz) \<Rightarrow>
      let w = WAVES ! i; a = waveA i x z; f = waveF i x z time; q = waveQ i x z
      in (rx + q * a * dirX w * cos f, ry + a * sin f, rz + q * a * dirZ w * cos f))"

definition waveLoop :: "real \<Rightarrow> real \<Rightarrow> real \<Rightarrow> real \<times> real \<times> real" where
  "waveLoop x z time = fold (waveBody x z time) [0..<WAVE_COUNT] (x, 0, z)"

text \<open>
  The breaking fold, applied to the accumulated position \<open>(rx, ry, rz)\<close>.
  \<open>f0\<close> is the phase of wave 0, computed before the loop in the source.
\<close>

definition breakStrengthAt :: "real \<Rightarrow> real \<Rightarrow> real" where
  "breakStrengthAt x z = smoothstep 5.0 2.0 (getDepth x z)"

definition breakAmountOf :: "real \<Rightarrow> real \<Rightarrow> real" where
  "breakAmountOf f0 breakStrength =
    (let sinF0 = sin f0; crestFactor = smoothstep 0.0 0.8 sinF0
     in crestFactor * crestFactor * breakStrength)"

definition breakingFold :: "real \<Rightarrow> real \<Rightarrow> real \<times> real \<times> real \<Rightarrow> real \<times> real \<times> real" where
  "breakingFold f0 breakStrength r =
    (case r of (rx, ry, rz) \<Rightarrow>
      if breakStrength > 0.001 then
        (let breakAmount = breakAmountOf f0 breakStrength;
             foldAngle = breakAmount * 3.0;
             aboveWater = max ry 0;
             belowWater = min ry 0;
             ry' = belowWater + aboveWater * cos foldAngle;
             rz' = rz + aboveWater * sin foldAngle;
             throwForward = breakAmount * breakAmount * aboveWater * 1.8
         in (rx, ry', rz' + throwForward))
      else (rx, ry, rz))"

definition gerstnerDisplace :: "real \<Rightarrow> real \<Rightarrow> real \<Rightarrow> real \<times> real \<times> real" where
  "gerstnerDisplace x z time =
    (let k0 = (2 * pi) / wavelength (WAVES ! 0);
         f0 = k0 * (dirX (WAVES ! 0) * x + dirZ (WAVES ! 0) * z - WaveDef.speed (WAVES ! 0) * time);
         r = waveLoop x z time
     in breakingFold f0 (breakStrengthAt x z) r)"

definition eps :: real where "eps = 0.2"

definition getWaveHeightAt :: "real \<Rightarrow> real \<Rightarrow> real \<Rightarrow> real" where
  "getWaveHeightAt x z time = fst (snd (gerstnerDisplace x z time))"

text \<open>\<open>getWaveSlopeAt\<close> returns the object \<open>{slopeX, slopeZ}\<close>, here a pair.\<close>

definition getWaveSlopeAt :: "real \<Rightarrow> real \<Rightarrow> real \<Rightarrow> real \<times> real" where
  "getWaveSlopeAt x z time =
    (let hRight = fst (snd (gerstnerDisplace (x + eps) z time));
         hLeft = fst (snd (gerstnerDisplace (x - eps) z time));
         hFront = fst (snd (gerstnerDisplace x (z + eps) time));
         hBack = fst (snd (gerstnerDisplace x (z - eps) time))
     in ((hRight - hLeft) / (2 * eps), (hFront - hBack) / (2 * eps)))"

section \<open>WaveSurface: the display-side vertex shader\<close>

text \<open>
  The default uniforms of \<open>GerstnerWaveMaterial\<close> and the vertex shader's
  \<open>getDepth\<close> and \<open>gerstnerWaves\<close>.  The GLSL built-ins are taken by their
  defining formulas: \<open>clamp(x, lo, hi) = min(max(x, lo), hi)\<close> and
  \<open>smoothstep(e0, e1, x) = t * t * (3 - 2 * t)\<close> with
  \<open>t = clamp((x - e0) / (e1 - e0), 0, 1)\<close>.
\<close>

definition uWaveDirX :: "real list" where "uWaveDirX = [0.0, 0.15, - 0.2]"
definition uWaveDirZ :: "real list" where "uWaveDirZ = [1.0, 0.99, 0.98]"
definition uWaveSteepness :: "real list" where "uWaveSteepness = [0.12, 0.08, 0.06]"
definition uWaveLength :: "real list" where "uWaveLength = [25.0, 15.0, 8.0]"
definition uWaveAmplitude :: "real list" where "uWaveAmplitude = [1.2, 0.4, 0.15]"
definition uWaveSpeed :: "real list" where "uWaveSpeed = [4.0, 3.5, 5.0]"
definition uDepthDeep :: real where "uDepthDeep = 10.0"
definition uDepthShallow :: real where "uDepthShallow = 1.5"
definition uShoreAngle :: real where "uShoreAngle = 0.42"
definition uShoreZCenter :: real where "uShoreZCenter = 30.0"
definition uDepthGradient :: real where "uDepthGradient = 0.12"

definition SHADER_WAVE_COUNT :: nat where "SHADER_WAVE_COUNT = 3"

definition glsl_clamp :: "real \<Rightarrow> real \<Rightarrow> real \<Rightarrow> real" where
  "glsl_clamp x lo hi = min (max x lo) hi"

definition glsl_smoothstep :: "real \<Rightarrow> real \<Rightarrow> real \<Rightarrow> real" where
  "glsl_smoothstep edge0 edge1 x =
    (let t = glsl_clamp ((x - edge0) / (edge1 - edge0)) 0.0 1.0
     in t * t * (3.0 - 2.0 * t))"

definition shaderGetDepth :: "real \<Rightarrow> real \<Rightarrow> real" where
  "shaderGetDepth x z =
    (let effectiveZ = z - x * uShoreAngle;
         rawDepth = uDepthDeep - (effectiveZ - uShoreZCenter) * uDepthGradient
     in glsl_clamp rawDepth uDepthShallow uDepthDeep)"

definition shaderEffectiveShoal :: "nat \<Rightarrow> real \<Rightarrow> real \<Rightarrow> real" where
  "shaderEffectiveShoal i x z =
    (let depth = shaderGetDepth x z;
         depthRatio = max (depth / uDepthDeep) 0.05;
         shoalFactor = 1.0 / sqrt depthRatio;
         shoalWeight = (if i = 0 then 1.0 else 0.3)
     in 1.0 + (shoalFactor - 1.0) * shoalWeight)"

definition shaderA :: "nat \<Rightarrow> real \<Rightarrow> real \<Rightarrow> real" where
  "shaderA i x z = (uWaveAmplitude ! i) * shaderEffectiveShoal i x z"

definition shaderSteepness :: "nat \<Rightarrow> real \<Rightarrow> real \<Rightarrow> real" where
  "shaderSteepness i x z = min ((uWaveSteepness ! i) * shaderEffectiveShoal i x z) 0.4"

definition shaderK :: "nat \<Rightarrow> real" where
  "shaderK i = 6.28318 / (uWaveLength ! i)"

definition shaderF :: "nat \<Rightarrow> real \<Rightarrow> real \<Rightarrow> real \<Rightarrow> real" where
  "shaderF i x z time =
    shaderK i * ((uWaveDirX ! i) * x + (uWaveDirZ ! i) * z - (uWaveSpeed ! i) * time)"

definition shaderQ :: "nat \<Rightarrow> real \<Rightarrow> real \<Rightarrow> real" where
  "shaderQ i x z =
    glsl_clamp (shaderSteepness i x z / (shaderK i * shaderA i x z * real SHADER_WAVE_COUNT)) 0.0 0.5"

definition shaderBody :: "real \<Rightarrow> real \<Rightarrow> real \<Rightarrow> nat \<Rightarrow> real \<times> real \<times> real \<Rightarrow> real \<times> real \<times> real" where
  "shaderBody x z time i r =
    (case r of (rx, ry, rz) \<Rightarrow>
      let a = shaderA i x z; f = shaderF i x z time; q = shaderQ i x z
      in (rx + q * a * (uWaveDirX ! i) * cos f, ry + a * sin f, rz + q * a * (uWaveDirZ ! i) * cos f))"

definition gerstnerWaves :: "real \<times> real \<times> real \<Rightarrow> real \<Rightarrow> real \<times> real \<times> real" where
  "gerstnerWaves pos time =
    (case pos of (px, py, pz) \<Rightarrow>
      let k0 = 6.28318 / (uWaveLength ! 0);
          f0 = k0 * ((uWaveDirX ! 0) * px + (uWaveDirZ ! 0) * pz - (uWaveSpeed ! 0) * time);
          r = fold (shaderBody px pz time) [0..<SHADER_WAVE_COUNT] pos;
          depth = shaderGetDepth px pz;
          breakStrength = glsl_smoothstep 5.0 2.0 depth
      in (case r of (rx, ry, rz) \<Rightarrow>
        if breakStrength > 0.001 then
          (let sinF0 = sin f0;
               crestFactor = glsl_smoothstep 0.0 0.8 sinF0;
               breakAmount = crestFactor * crestFactor * breakStrength;
               foldAngle = breakAmount * 3.0;
               aboveWater = max ry 0.0;
               belowWater = min ry 0.0;
               ry' = belowWater + aboveWater * cos foldAngle;
               rz' = rz + aboveWater * sin foldAngle;
               throwForward = breakAmount * breakAmount * aboveWater * 1.8
           in (rx, ry', rz' + throwForward))
        else (rx, ry, rz)))"

section \<open>App: the rider\<close>

definition GRAVITY :: real where "GRAVITY = 9.8"
definition START_X :: real where "START_X = 5"
definition START_Z :: real where "START_Z = 20"
definition START_YAW :: real where "START_YAW = - pi / 2"

datatype GameState = Start | Playing | Gameover

text \<open>
  \<open>SprayState\<close> is the object behind \<open>sprayStateRef\<close>, \<open>PhysState\<close> the one behind
  \<open>stateRef\<close>, \<open>Group\<close> the position and Euler rotation of the three.js group
  behind \<open>groupRef\<close> (\<open>None\<close> while the ref is null).  \<open>Player\<close> collects what
  the component's frame callback and effects read and write: the two React
  states \<open>gameState\<close> and \<open>crashReason\<close> and the refs.  The camera and the HUD
  elements, which the callback only writes to, are left out.

  The state \<open>gameState\<close> lives in the parent; its setter stores a value and
  schedules a render.  The frame callback and the effect are closures created
  at a render: they read the \<open>gameState\<close> prop of that render, not the stored
  value.  The record keeps both: \<open>gameState\<close> is the stored value, the one the
  setter writes, and \<open>gameStateProp\<close> the value of the prop at the last render,
  the one the callback, the effect and the buttons of the page see.
\<close>

record SprayState =
  roll :: real
  height :: real
  speed :: real
  rollRate :: jsnum
  isSnapping :: bool
  isPlaying :: bool

definition initialSprayState :: SprayState where
  "initialSprayState =
    \<lparr>roll = 0, height = 0.4, speed = 12, rollRate = Fin 0, isSnapping = False, isPlaying = False\<rparr>"

record PhysState =
  pitch :: real
  roll :: real
  yaw :: real
  cameraYaw :: real
  height :: real
  vY :: real
  speed :: real
  prevPitch :: real
  prevRoll :: real

record Group =
  position :: "real \<times> real \<times> real"
  rotation :: "real \<times> real \<times> real"

record Player =
  gameState :: GameState
  gameStateProp :: GameState
  crashReason :: string
  stateRef :: PhysState
  groupRef :: "Group option"
  clockRef :: real
  sprayStateRef :: SprayState

definition initialPhysState :: PhysState where
  "initialPhysState =
    \<lparr>pitch = 0, roll = 0, yaw = START_YAW, cameraYaw = START_YAW,
     height = 0.4, vY = 0, speed = 12, prevPitch = 0, prevRoll = 0\<rparr>"

text \<open>
  The effect \<open>useEffect(..., [gameState])\<close>: reset physics when the game starts.
  It runs after a render and tests the prop of that render.
\<close>

definition resetEffect :: "Player \<Rightarrow> Player" where
  "resetEffect p =
    (if gameStateProp p = Playing then
       (let p = p\<lparr>stateRef := initialPhysState\<rparr>
        in case groupRef p of
             None \<Rightarrow> p
           | Some g \<Rightarrow>
               let t = clockRef p
               in p\<lparr>groupRef := Some (g\<lparr>position := (START_X, getWaveHeightAt START_X START_Z t + 0.4, START_Z),
                                          rotation := (0, START_YAW, 0)\<rparr>)\<rparr>)
     else p)"

text \<open>
  \<open>setGameState\<close> stores the new value; the render it schedules is a later
  event of its own, \<open>commitRender\<close>: the component is rendered with the stored
  value as its prop, which replaces the frame callback, and the effect runs if
  the prop has changed since the last render.  React does not order that render
  against the next animation frame.
\<close>

definition setGameState :: "Player \<Rightarrow> GameState \<Rightarrow> Player" where
  "setGameState p st = p\<lparr>gameState := st\<rparr>"

definition commitRender :: "Player \<Rightarrow> Player" where
  "commitRender p =
    (if gameStateProp p = gameState p then p
     else resetEffect (p\<lparr>gameStateProp := gameState p\<rparr>))"

definition setCrashReason :: "Player \<Rightarrow> string \<Rightarrow> Player" where
  "setCrashReason p reason = p\<lparr>crashReason := reason\<rparr>"

subsection \<open>The stages of the frame callback\<close>

definition targetRollOf :: "(string \<Rightarrow> bool) \<Rightarrow> real" where
  "targetRollOf keys =
    (let targetRoll = 0;
         targetRoll = (if keys ''ArrowLeft'' \<or> keys ''KeyA'' then 0.55 else targetRoll);
         targetRoll = (if keys ''ArrowRight'' \<or> keys ''KeyD'' then - 0.55 else targetRoll)
     in targetRoll)"

definition isSnappingOf :: "(string \<Rightarrow> bool) \<Rightarrow> bool" where
  "isSnappingOf keys = (keys ''ShiftLeft'' \<or> keys ''ShiftRight'' \<or> keys ''Shift'')"

definition targetPitchOf :: "(string \<Rightarrow> bool) \<Rightarrow> real" where
  "targetPitchOf keys =
    (let targetPitch = 0.05;
         targetPitch = (if keys ''ArrowUp'' \<or> keys ''KeyW'' then - 0.2 else targetPitch);
         targetPitch = (if keys ''ArrowDown'' \<or> keys ''KeyS'' then 0.3 else targetPitch);
         targetPitch = (if isSnappingOf keys \<and> \<bar>targetRollOf keys\<bar> > 0 then 0.25 else targetPitch)
     in targetPitch)"

definition slopeInDirectionOf :: "real \<Rightarrow> real \<Rightarrow> real \<Rightarrow> real" where
  "slopeInDirectionOf slopeX slopeZ yw =
    (let forwardX = - sin yw; forwardZ = - cos yw
     in slopeX * forwardX + slopeZ * forwardZ)"

definition slopeMagOf :: "real \<Rightarrow> real \<Rightarrow> real" where
  "slopeMagOf slopeX slopeZ = sqrt (slopeX * slopeX + slopeZ * slopeZ)"

definition uphillRatioOf :: "real \<Rightarrow> real \<Rightarrow> real" where
  "uphillRatioOf slopeMag slopeInDirection =
    (if slopeMag > 0.001 then max 0 (slopeInDirection / slopeMag) else 0)"

definition foilCatchThrustOf :: "real \<Rightarrow> real \<Rightarrow> real \<Rightarrow> real" where
  "foilCatchThrustOf slopeX slopeZ yw =
    (let slopeInDirection = slopeInDirectionOf slopeX slopeZ yw;
         slopeMag = slopeMagOf slopeX slopeZ;
         uphillRatio = uphillRatioOf slopeMag slopeInDirection
     in slopeMag * 1.5 * (1.0 - 0.5 * uphillRatio))"

definition dragOf :: "PhysState \<Rightarrow> bool \<Rightarrow> real" where
  "dragOf s snapping =
    (let drag = (speed s * 0.08) + (max 0 (pitch s) * speed s * 1.2) + (\<bar>roll s\<bar> * speed s * 0.2);
         drag = (if snapping \<and> \<bar>roll s\<bar> > 0.1 then drag + speed s * 2.5 else drag)
     in drag)"

text \<open>
  Speed integration.  \<open>pitchRate\<close> and \<open>rollRate\<close> are quotients by \<open>dt\<close>, so
  they, \<open>pumpThrust\<close> and the integrated speed are \<open>jsnum\<close> values.
  \<open>integrateSpeed\<close> is the right-hand side of \<open>s.speed += ...\<close>, \<open>guardSpeed\<close>
  the \<open>isNaN\<close> line, \<open>clampSpeed\<close> the clamp line.
\<close>

definition rateOf :: "real \<Rightarrow> real \<Rightarrow> real \<Rightarrow> jsnum" where
  "rateOf now prev dt = jdiv (Fin \<bar>now - prev\<bar>) (Fin dt)"

definition pumpThrustOf :: "jsnum \<Rightarrow> jsnum \<Rightarrow> jsnum" where
  "pumpThrustOf pitchRate rollRt = jadd (jmul pitchRate (Fin 3.5)) (jmul rollRt (Fin 0.3))"

definition integrateSpeed :: "real \<Rightarrow> real \<Rightarrow> real \<Rightarrow> jsnum \<Rightarrow> real \<Rightarrow> real \<Rightarrow> jsnum" where
  "integrateSpeed spd waveSlopeThrust foilCatchThrust pumpThrust drag dt =
    jadd (Fin spd)
      (jmul (jsub (jadd (Fin (waveSlopeThrust + foilCatchThrust)) pumpThrust) (Fin drag)) (Fin dt))"

definition guardSpeed :: "jsnum \<Rightarrow> jsnum" where
  "guardSpeed v = (if isNaN v then Fin 0 else v)"

definition clampSpeed :: "jsnum \<Rightarrow> jsnum" where
  "clampSpeed v = clamp v (Fin 1.0) (Fin 25.0)"

text \<open>
  The clamped speed is stored in a field the model keeps \<open>real\<close>; the second
  branch is never taken (lemma \<open>clampSpeed_guardSpeed_Fin\<close> below).
\<close>

definition finiteValue :: "jsnum \<Rightarrow> real" where
  "finiteValue v = (case v of Fin r \<Rightarrow> r | _ \<Rightarrow> 0)"

definition groundEffectOf :: "real \<Rightarrow> real" where
  "groundEffectOf h =
    (let groundEffect = 0;
         groundEffect = (if h < 0.3 then (0.3 - h) * 15.0 else groundEffect);
         groundEffect = (if h > 1.0 then - (h - 1.0) * 10.0 else groundEffect)
     in groundEffect)"

definition crashDetection :: "real \<Rightarrow> bool \<times> string" where
  "crashDetection h =
    (if h \<le> - 0.05 then (True, ''TOUCHDOWN! Board dug into the water.'')
     else if h \<ge> 1.3 then (True, ''BREACHED! Foil wing came out of the water.'')
     else (False, []))"

text \<open>
  Steps 1 to 3 of the callback: the state after input, speed and vertical
  physics, together with the \<open>rollRate\<close>.
\<close>

definition physics :: "PhysState \<Rightarrow> real \<times> real \<Rightarrow> real \<Rightarrow> (string \<Rightarrow> bool) \<Rightarrow> PhysState \<times> jsnum" where
  "physics s0 slope dt keys =
    (case slope of (slopeX, slopeZ) \<Rightarrow>
     let targetPitch = targetPitchOf keys;
         targetRoll = targetRollOf keys;
         snapping = isSnappingOf keys;
         s = s0\<lparr>prevPitch := pitch s0\<rparr>;
         s = s\<lparr>prevRoll := roll s\<rparr>;
         s = s\<lparr>pitch := lerp (pitch s) targetPitch (dt * 5.0)\<rparr>;
         s = s\<lparr>roll := lerp (roll s) targetRoll (dt * 6.0)\<rparr>;
         pitchRate = rateOf (pitch s) (prevPitch s) dt;
         rollRt = rateOf (roll s) (prevRoll s) dt;
         slopeInDirection = slopeInDirectionOf slopeX slopeZ (yaw s);
         waveSlopeThrust = - slopeInDirection * GRAVITY * 0.35;
         slopeMag = slopeMagOf slopeX slopeZ;
         foilCatchThrust = foilCatchThrustOf slopeX slopeZ (yaw s);
         pumpThrust = pumpThrustOf pitchRate rollRt;
         drag = dragOf s snapping;
         s = s\<lparr>speed := finiteValue (clampSpeed (guardSpeed
               (integrateSpeed (speed s) waveSlopeThrust foilCatchThrust pumpThrust drag dt)))\<rparr>;
         baseLift = (speed s / 10.0) * GRAVITY;
         pitchLift = pitch s * speed s * 3.0;
         groundEffect = groundEffectOf (height s);
         waveLift = slopeMag * GRAVITY * 0.2;
         totalLift = baseLift + pitchLift + groundEffect + waveLift;
         s = s\<lparr>vY := vY s + (totalLift - GRAVITY) * dt\<rparr>;
         s = s\<lparr>vY := vY s * 0.85\<rparr>;
         s = s\<lparr>height := height s + vY s * dt\<rparr>
     in (s, rollRt))"

text \<open>
  \<open>forward.applyAxisAngle(new THREE.Vector3(0, 1, 0), angle)\<close>: the rotation of a
  vector about the Y axis (three.js).
\<close>

definition applyAxisAngleY :: "real \<times> real \<times> real \<Rightarrow> real \<Rightarrow> real \<times> real \<times> real" where
  "applyAxisAngleY v angle =
    (case v of (vx, vy, vz) \<Rightarrow>
      (vx * cos angle + vz * sin angle, vy, - vx * sin angle + vz * cos angle))"

text \<open>Steps 5 and 6: turning, movement and the pose of the group.\<close>

definition movement :: "PhysState \<Rightarrow> Group \<Rightarrow> real \<Rightarrow> real \<Rightarrow> bool \<Rightarrow> PhysState \<times> Group" where
  "movement s0 g dt elapsedTime snapping =
    (let snapMultiplier = (if snapping then 2.5 else 1.0);
         speedFactor = (if snapping then 1.0 else 10.0 / max (speed s0) 10.0);
         s = s0\<lparr>yaw := yaw s0 + roll s0 * dt * 5.5 * snapMultiplier * speedFactor\<rparr>
     in case applyAxisAngleY (0, 0, - 1) (yaw s) of (fx, fy, fz) \<Rightarrow>
        (case position g of (px, py, pz) \<Rightarrow>
          let m = speed s * dt;
              px = px + fx * m; py = py + fy * m; pz = pz + fz * m;
              waveY = getWaveHeightAt px pz elapsedTime
          in (s, g\<lparr>position := (px, waveY + height s, pz),
                     rotation := (pitch s, yaw s, roll s)\<rparr>)))"

text \<open>
  The slope query of the callback:
  \<open>getWaveSlopeAt(groupRef.current.position.x, groupRef.current.position.z, elapsedTime)\<close>.
\<close>

definition slopeAt :: "Group \<Rightarrow> real \<Rightarrow> real \<times> real" where
  "slopeAt g elapsedTime = (case position g of (px, py, pz) \<Rightarrow> getWaveSlopeAt px pz elapsedTime)"

text \<open>
  The callback passed to \<open>useFrame\<close>; \<open>elapsedTime\<close> is \<open>state.clock.elapsedTime\<close>
  and \<open>keys\<close> the pressed-key table (a missing key reads as false).  Its test
  \<open>gameState !== 'playing'\<close> reads the prop of the render that created it.
\<close>

definition useFrame :: "Player \<Rightarrow> real \<Rightarrow> real \<Rightarrow> (string \<Rightarrow> bool) \<Rightarrow> Player" where
  "useFrame p0 elapsedTime delta keys =
    (let p = p0\<lparr>clockRef := elapsedTime\<rparr>;
         stopped = p\<lparr>sprayStateRef := (sprayStateRef p)\<lparr>isPlaying := False\<rparr>\<rparr>
     in if gameStateProp p = Playing then
          (case groupRef p of
             None \<Rightarrow> stopped
           | Some g \<Rightarrow>
              let dt = min delta 0.1;
                  slope = slopeAt g elapsedTime
              in case physics (stateRef p) slope dt keys of (s, rollRt) \<Rightarrow>
                 let p = p\<lparr>stateRef := s\<rparr>
                 in case crashDetection (height s) of (crashed, reason) \<Rightarrow>
                    if crashed then
                      setGameState
                        (setCrashReason (p\<lparr>sprayStateRef := (sprayStateRef p)\<lparr>isPlaying := False\<rparr>\<rparr>) reason)
                        Gameover
                    else
                      (case movement s g dt elapsedTime (isSnappingOf keys) of (s', g') \<Rightarrow>
                        p\<lparr>stateRef := s', groupRef := Some g',
                          sprayStateRef :=
                            (sprayStateRef p)\<lparr>SprayState.roll := roll s', SprayState.height := height s',
                              SprayState.speed := speed s', rollRate := rollRt,
                              isSnapping := isSnappingOf keys, isPlaying := True\<rparr>\<rparr>))
        else stopped)"

subsection \<open>Sessions\<close>

text \<open>
  What happens to the component: a frame, a click on the start or retry button,
  which calls \<open>setGameState('playing')\<close>, or a render.  The buttons are only on
  the page when it was rendered in the states \<open>start\<close> and \<open>gameover\<close>.
\<close>

datatype Event = Frame real real "string \<Rightarrow> bool" | ClickPlay | Render

fun stepEvent :: "Player \<Rightarrow> Event \<Rightarrow> Player" where
  "stepEvent p (Frame elapsedTime delta keys) = useFrame p elapsedTime delta keys"
| "stepEvent p ClickPlay = (if gameStateProp p = Playing then p else setGameState p Playing)"
| "stepEvent p Render = commitRender p"

fun run :: "Player \<Rightarrow> Event list \<Rightarrow> Player" where
  "run p [] = p"
| "run p (e # es) = run (stepEvent p e) es"

text \<open>The component after mounting: the initial values of the states and refs.\<close>

definition initialPlayer :: Player where
  "initialPlayer =
    \<lparr>gameState = Start, gameStateProp = Start, crashReason = [],
     stateRef = initialPhysState,
     groupRef = Some \<lparr>position = (START_X, getWaveHeightAt START_X START_Z 0 + 0.4, START_Z),
                       rotation = (0, 0, 0)\<rparr>,
     clockRef = 0,
     sprayStateRef = initialSprayState\<rparr>"

text \<open>
  A rider in play at height \<open>h\<close> above the surface, otherwise in the starting
  pose: the input of the concrete checks below.
\<close>

definition riderAtHeight :: "real \<Rightarrow> Player" where
  "riderAtHeight h =
    initialPlayer\<lparr>gameState := Playing, gameStateProp := Playing,
      stateRef := initialPhysState\<lparr>height := h\<rparr>\<rparr>"


text \<open>
  The speed as the line \<open>s.speed += ...\<close> of a frame leaves it, before the
  \<open>isNaN\<close> line: the same steps as in \<open>physics\<close>, up to that line.
\<close>

definition rawSpeed :: "PhysState \<Rightarrow> real \<times> real \<Rightarrow> real \<Rightarrow> (string \<Rightarrow> bool) \<Rightarrow> jsnum" where
  "rawSpeed s0 slope dt keys =
    (case slope of (slopeX, slopeZ) \<Rightarrow>
     let targetPitch = targetPitchOf keys;
         targetRoll = targetRollOf keys;
         snapping = isSnappingOf keys;
         s = s0\<lparr>prevPitch := pitch s0\<rparr>;
         s = s\<lparr>prevRoll := roll s\<rparr>;
         s = s\<lparr>pitch := lerp (pitch s) targetPitch (dt * 5.0)\<rparr>;
         s = s\<lparr>roll := lerp (roll s) targetRoll (dt * 6.0)\<rparr>;
         pitchRate = rateOf (pitch s) (prevPitch s) dt;
         rollRt = rateOf (roll s) (prevRoll s) dt;
         slopeInDirection = slopeInDirectionOf slopeX slopeZ (yaw s);
         waveSlopeThrust = - slopeInDirection * GRAVITY * 0.35;
         foilCatchThrust = foilCatchThrustOf slopeX slopeZ (yaw s);
         pumpThrust = pumpThrustOf pitchRate rollRt;
         drag = dragOf s snapping
     in integrateSpeed (speed s) waveSlopeThrust foilCatchThrust pumpThrust drag dt)"

text \<open>\<open>Number.isFinite\<close>: neither NaN nor an infinity.\<close>

fun isFiniteNum :: "jsnum \<Rightarrow> bool" where
  "isFiniteNum (Fin r) = True"
| "isFiniteNum _ = False"

section \<open>Depth model\<close>

text \<open>
  Claim C4.  For all \<open>x\<close> and \<open>z\<close> the depth lies between the shallow and the deep
  depth, 1.5 and 10 in the shipped configuration, and it is the linear profile
  \<open>10 - ((z - x * 0.42) - 30) * 0.12\<close> in the rotated coordinate, clamped to
  that range.
\<close>

theorem getDepth_bounds:
  "DEPTH_SHALLOW \<le> getDepth x z \<and> getDepth x z \<le> DEPTH_DEEP
   \<and> DEPTH_SHALLOW = 1.5 \<and> DEPTH_DEEP = 10.0
   \<and> getDepth x z = max 1.5 (min 10.0 (10.0 - ((z - x * 0.42) - 30.0) * 0.12))"
  by (simp add: getDepth_def DEPTH_SHALLOW_def DEPTH_DEEP_def SHORE_ANGLE_def
      SHORE_Z_CENTER_def DEPTH_GRADIENT_def Let_def)

section \<open>The displacement factor\<close>

lemma waveQ_range: "0 \<le> waveQ i x z \<and> waveQ i x z \<le> 0.5"
  unfolding waveQ_def by (auto simp: max_def min_def)

lemma shaderQ_range: "0 \<le> shaderQ i x z \<and> shaderQ i x z \<le> 0.5"
  unfolding shaderQ_def glsl_clamp_def by (auto simp: max_def min_def)

lemma q_term_bound:
  fixes q a d c :: real
  assumes "0 \<le> q" "q \<le> 0.5" "\<bar>c\<bar> \<le> 1"
  shows "\<bar>q * a * d * c\<bar> \<le> 0.5 * \<bar>a * d\<bar>"
proof -
  have "\<bar>q * a * d * c\<bar> = q * \<bar>a * d\<bar> * \<bar>c\<bar>"
    using assms(1) by (simp add: abs_mult)
  also have "\<dots> \<le> 0.5 * \<bar>a * d\<bar> * 1"
    using assms by (intro mult_mono) auto
  finally show ?thesis by simp
qed

text \<open>
  Claim C7.  For every component \<open>i\<close> and every point, the factor \<open>q\<close>, computed
  from the shoaled amplitude and the capped steepness, lies in \<open>[0, 0.5]\<close>, on
  the physics side and in the shader; the loop body adds the horizontal terms
  \<open>q * a * dir * cos f\<close> with that \<open>q\<close>, so each is at most \<open>0.5 * |a * dir|\<close> in
  size.
\<close>

theorem q_clamped:
  "0 \<le> waveQ i x z \<and> waveQ i x z \<le> 0.5
   \<and> waveQ i x z = max 0 (min (waveSteepness i x z / (waveK i * waveA i x z * real WAVE_COUNT)) 0.5)
   \<and> 0 \<le> shaderQ i x z \<and> shaderQ i x z \<le> 0.5
   \<and> waveBody x z time i (rx, ry, rz) =
       (rx + waveQ i x z * waveA i x z * dirX (WAVES ! i) * cos (waveF i x z time),
        ry + waveA i x z * sin (waveF i x z time),
        rz + waveQ i x z * waveA i x z * dirZ (WAVES ! i) * cos (waveF i x z time))
   \<and> \<bar>waveQ i x z * waveA i x z * dirX (WAVES ! i) * cos (waveF i x z time)\<bar>
        \<le> 0.5 * \<bar>waveA i x z * dirX (WAVES ! i)\<bar>
   \<and> \<bar>waveQ i x z * waveA i x z * dirZ (WAVES ! i) * cos (waveF i x z time)\<bar>
        \<le> 0.5 * \<bar>waveA i x z * dirZ (WAVES ! i)\<bar>"
proof -
  have r: "0 \<le> waveQ i x z" "waveQ i x z \<le> 0.5" using waveQ_range by auto
  have b: "waveBody x z time i (rx, ry, rz) =
       (rx + waveQ i x z * waveA i x z * dirX (WAVES ! i) * cos (waveF i x z time),
        ry + waveA i x z * sin (waveF i x z time),
        rz + waveQ i x z * waveA i x z * dirZ (WAVES ! i) * cos (waveF i x z time))"
    by (simp add: waveBody_def Let_def)
  have c: "\<bar>cos (waveF i x z time)\<bar> \<le> 1" by (rule abs_cos_le_one)
  show ?thesis
    using r b shaderQ_range[of i x z] q_term_bound[OF r c] waveQ_def[of i x z]
    by simp
qed

section \<open>The breaking fold\<close>

lemma smoothstep_low: "5 \<le> d \<Longrightarrow> smoothstep 5.0 2.0 d = 0"
  by (simp add: smoothstep_def Let_def max_def min_def)

lemma smoothstep_high: "d \<le> 2 \<Longrightarrow> smoothstep 5.0 2.0 d = 1"
  by (simp add: smoothstep_def Let_def max_def min_def)

lemma smoothstep_unit: "0 \<le> smoothstep e0 e1 v \<and> smoothstep e0 e1 v \<le> 1"
proof -
  define t where "t = max 0 (min ((v - e0) / (e1 - e0)) 1.0)"
  have t: "0 \<le> t" "t \<le> 1" by (auto simp: t_def)
  have s: "smoothstep e0 e1 v = t * t * (3 - 2 * t)"
    by (simp add: smoothstep_def Let_def t_def)
  have "0 \<le> t * t * (3 - 2 * t)" using t by (intro mult_nonneg_nonneg) auto
  moreover have "1 - t * t * (3 - 2 * t) = (1 - t) * (1 - t) * (1 + 2 * t)"
    by (simp add: algebra_simps)
  moreover have "0 \<le> (1 - t) * (1 - t) * (1 + 2 * t)" using t by (intro mult_nonneg_nonneg) auto
  ultimately show ?thesis using s by linarith
qed

text \<open>
  Claim C5.  Where the break strength exceeds 0.001, the test of the code, the
  displaced position is the wave sum \<open>(rx, y, rz)\<close> with \<open>y\<close> replaced by
  \<open>min y 0 + max y 0 * cos foldAngle\<close> and with \<open>max y 0 * sin foldAngle\<close> and the
  throw \<open>breakAmount\<^sup>2 * max y 0 * 1.8\<close> added to \<open>z\<close>, the propagation direction
  of the primary wave; \<open>foldAngle = breakAmount * 3\<close> and
  \<open>breakAmount = (smoothstep 0 0.8 (sin f0))\<^sup>2 * breakStrength\<close>, with \<open>f0\<close> the
  phase of wave 0 alone.  The break strength is the smoothstep ramp of the
  depth from 5 down to 2: 0 at depth 5 and more, 1 at depth 2 and less.
\<close>

theorem breaking_fold:
  "(breakStrengthAt x z > 0.001 \<longrightarrow>
      gerstnerDisplace x z time =
        (case waveLoop x z time of (rx, y, rz) \<Rightarrow>
          let f0 = (2 * pi / 25) * (z - 4 * time);
              breakAmount = (smoothstep 0 0.8 (sin f0))\<^sup>2 * breakStrengthAt x z;
              foldAngle = breakAmount * 3.0
          in (rx, min y 0 + max y 0 * cos foldAngle,
              rz + max y 0 * sin foldAngle + breakAmount\<^sup>2 * max y 0 * 1.8)))
   \<and> breakStrengthAt x z = smoothstep 5 2 (getDepth x z)
   \<and> (5 \<le> getDepth x z \<longrightarrow> breakStrengthAt x z = 0)
   \<and> (getDepth x z \<le> 2 \<longrightarrow> breakStrengthAt x z = 1)
   \<and> 0 \<le> breakStrengthAt x z \<and> breakStrengthAt x z \<le> 1"
proof -
  have a: "breakStrengthAt x z > 0.001 \<longrightarrow>
      gerstnerDisplace x z time =
        (case waveLoop x z time of (rx, y, rz) \<Rightarrow>
          let f0 = (2 * pi / 25) * (z - 4 * time);
              breakAmount = (smoothstep 0 0.8 (sin f0))\<^sup>2 * breakStrengthAt x z;
              foldAngle = breakAmount * 3.0
          in (rx, min y 0 + max y 0 * cos foldAngle,
              rz + max y 0 * sin foldAngle + breakAmount\<^sup>2 * max y 0 * 1.8))"
    by (simp add: gerstnerDisplace_def breakingFold_def breakAmountOf_def WAVES_def Let_def
        power2_eq_square split: prod.split)
  have b: "breakStrengthAt x z = smoothstep 5 2 (getDepth x z)"
    by (simp add: breakStrengthAt_def)
  show ?thesis
    using a b smoothstep_low[of "getDepth x z"] smoothstep_high[of "getDepth x z"]
      smoothstep_unit[of 5 2 "getDepth x z"]
    by simp
qed

theorem breaking_fold_witness:
  "breakStrengthAt 0 100 > 0.001 \<and> getDepth 0 100 \<le> 2 \<and> breakStrengthAt 0 100 = 1
   \<and> 5 \<le> getDepth 0 0 \<and> breakStrengthAt 0 0 = 0
   \<and> gerstnerDisplace 0 100 0 =
        (case waveLoop 0 100 0 of (rx, y, rz) \<Rightarrow>
          let f0 = (2 * pi / 25) * (100 - 4 * 0);
              breakAmount = (smoothstep 0 0.8 (sin f0))\<^sup>2 * breakStrengthAt 0 100;
              foldAngle = breakAmount * 3.0
          in (rx, min y 0 + max y 0 * cos foldAngle,
              rz + max y 0 * sin foldAngle + breakAmount\<^sup>2 * max y 0 * 1.8))"
proof -
  have d: "getDepth 0 100 = 1.6" "getDepth 0 0 = 10"
    by (simp_all add: getDepth_def DEPTH_SHALLOW_def DEPTH_DEEP_def SHORE_ANGLE_def
        SHORE_Z_CENTER_def DEPTH_GRADIENT_def Let_def)
  show ?thesis
    using breaking_fold[of 0 100 0] breaking_fold[of 0 0 0] d by simp
qed

section \<open>Foil-catch thrust\<close>

lemma slopeMag_nonneg: "0 \<le> slopeMagOf sx sz"
  by (simp add: slopeMagOf_def)

lemma lagrange2:
  fixes a b s c :: real
  shows "(a * s + b * c)\<^sup>2 + (a * c - b * s)\<^sup>2 = (a * a + b * b) * (s * s + c * c)"
  by (simp add: power2_eq_square algebra_simps)

lemma slopeInDirection_le_mag: "\<bar>slopeInDirectionOf sx sz yw\<bar> \<le> slopeMagOf sx sz"
proof -
  have one: "sin yw * sin yw + cos yw * cos yw = 1"
    using sin_cos_squared_add[of yw] by (simp add: power2_eq_square)
  have "(sx * sin yw + sz * cos yw)\<^sup>2 + (sx * cos yw - sz * sin yw)\<^sup>2 = sx * sx + sz * sz"
    unfolding lagrange2 one by simp
  then have "(sx * sin yw + sz * cos yw)\<^sup>2 \<le> sx * sx + sz * sz"
    using zero_le_power2[of "sx * cos yw - sz * sin yw"] by linarith
  then have "sqrt ((sx * sin yw + sz * cos yw)\<^sup>2) \<le> sqrt (sx * sx + sz * sz)"
    by (simp only: real_sqrt_le_iff)
  then have "\<bar>sx * sin yw + sz * cos yw\<bar> \<le> sqrt (sx * sx + sz * sz)"
    by (simp only: real_sqrt_abs)
  moreover have "slopeInDirectionOf sx sz yw = - (sx * sin yw + sz * cos yw)"
    by (simp add: slopeInDirectionOf_def Let_def)
  ultimately show ?thesis by (simp add: slopeMagOf_def)
qed

lemma uphillRatio_range:
  "0 \<le> uphillRatioOf (slopeMagOf sx sz) (slopeInDirectionOf sx sz yw)
   \<and> uphillRatioOf (slopeMagOf sx sz) (slopeInDirectionOf sx sz yw) \<le> 1"
proof (cases "slopeMagOf sx sz > 0.001")
  case True
  then have pos: "0 < slopeMagOf sx sz" by simp
  have "slopeInDirectionOf sx sz yw \<le> slopeMagOf sx sz"
    using slopeInDirection_le_mag[of sx sz yw] by simp
  then have "slopeInDirectionOf sx sz yw / slopeMagOf sx sz \<le> 1"
    using pos by (simp add: divide_le_eq)
  then show ?thesis using True by (simp add: uphillRatioOf_def)
next
  case False
  then show ?thesis by (simp add: uphillRatioOf_def)
qed

lemma sqrt_small: "sqrt (1 / 4000000) = 1 / 2000"
  by (rule real_sqrt_unique) (simp_all add: power2_eq_square)

text \<open>
  Claim C9, as stated, fails: with a slope of magnitude 0.0005, which is not
  zero, and the rider heading straight uphill, the code takes the branch
  \<open>uphillRatio = 0\<close> of its guard \<open>slopeMag > 0.001\<close>, and the thrust is
  \<open>|slope| * 1.5\<close>, not \<open>|slope| * 1.5 * (1 - 0.5 * max 0 (slopeInDirection / |slope|))\<close>.
\<close>

theorem foilCatch_counterexample:
  "slopeMagOf 0 (- 0.0005) \<noteq> 0
   \<and> foilCatchThrustOf 0 (- 0.0005) 0 = 0.00075
   \<and> slopeMagOf 0 (- 0.0005) * 1.5 *
         (1 - 0.5 * max 0 (slopeInDirectionOf 0 (- 0.0005) 0 / slopeMagOf 0 (- 0.0005))) = 0.000375
   \<and> foilCatchThrustOf 0 (- 0.0005) 0 \<noteq>
       slopeMagOf 0 (- 0.0005) * 1.5 *
         (1 - 0.5 * max 0 (slopeInDirectionOf 0 (- 0.0005) 0 / slopeMagOf 0 (- 0.0005)))"
proof -
  have m: "slopeMagOf 0 (- 0.0005) = 1 / 2000"
    using sqrt_small by (simp add: slopeMagOf_def)
  have d: "slopeInDirectionOf 0 (- 0.0005) 0 = 1 / 2000"
    by (simp add: slopeInDirectionOf_def Let_def)
  have f: "foilCatchThrustOf 0 (- 0.0005) 0 = 3 / 4000"
    unfolding foilCatchThrustOf_def Let_def m d by (simp add: uphillRatioOf_def)
  show ?thesis unfolding f m d by simp
qed

text \<open>
  Claim C9, amended.  When the slope magnitude exceeds 0.001, the foil-catch
  thrust is \<open>|slope| * 1.5 * (1 - 0.5 * max 0 (slopeInDirection / |slope|))\<close>: the
  multiplier is exactly 1 when the rider moves with or across the slope
  (\<open>slopeInDirection \<le> 0\<close>) and exactly 0.5 when the rider moves straight uphill
  (\<open>slopeInDirection = |slope|\<close>).  When the slope magnitude is at most 0.001 the
  multiplier is 1.  In every case the thrust lies between \<open>|slope| * 0.75\<close> and
  \<open>|slope| * 1.5\<close>, so it is never negative.
\<close>

theorem foilCatch_amended:
  "(slopeMagOf sx sz > 0.001 \<longrightarrow>
      foilCatchThrustOf sx sz yw =
        slopeMagOf sx sz * 1.5 *
          (1 - 0.5 * max 0 (slopeInDirectionOf sx sz yw / slopeMagOf sx sz)))
   \<and> (slopeMagOf sx sz > 0.001 \<and> slopeInDirectionOf sx sz yw \<le> 0 \<longrightarrow>
      foilCatchThrustOf sx sz yw = slopeMagOf sx sz * 1.5 * 1.0)
   \<and> (slopeMagOf sx sz > 0.001 \<and> slopeInDirectionOf sx sz yw = slopeMagOf sx sz \<longrightarrow>
      foilCatchThrustOf sx sz yw = slopeMagOf sx sz * 1.5 * 0.5)
   \<and> (slopeMagOf sx sz \<le> 0.001 \<longrightarrow> foilCatchThrustOf sx sz yw = slopeMagOf sx sz * 1.5)
   \<and> slopeMagOf sx sz * 1.5 * 0.5 \<le> foilCatchThrustOf sx sz yw
   \<and> foilCatchThrustOf sx sz yw \<le> slopeMagOf sx sz * 1.5
   \<and> 0 \<le> foilCatchThrustOf sx sz yw"
proof -
  let ?m = "slopeMagOf sx sz" and ?d = "slopeInDirectionOf sx sz yw"
  let ?u = "uphillRatioOf ?m ?d"
  have f: "foilCatchThrustOf sx sz yw = ?m * 1.5 * (1 - 0.5 * ?u)"
    by (simp add: foilCatchThrustOf_def Let_def)
  have m: "0 \<le> ?m" by (rule slopeMag_nonneg)
  have u: "0 \<le> ?u" "?u \<le> 1" using uphillRatio_range[of sx sz yw] by auto
  have c1: "?m > 0.001 \<longrightarrow> foilCatchThrustOf sx sz yw = ?m * 1.5 * (1 - 0.5 * max 0 (?d / ?m))"
    by (simp add: f uphillRatioOf_def)
  have c2: "?m > 0.001 \<and> ?d \<le> 0 \<longrightarrow> foilCatchThrustOf sx sz yw = ?m * 1.5 * 1.0"
  proof
    assume h: "?m > 0.001 \<and> ?d \<le> 0"
    then have "?d / ?m \<le> 0" by (simp add: divide_le_0_iff)
    then have "?u = 0" using h by (simp add: uphillRatioOf_def max_def)
    then show "foilCatchThrustOf sx sz yw = ?m * 1.5 * 1.0" by (simp add: f)
  qed
  have c3: "?m > 0.001 \<and> ?d = ?m \<longrightarrow> foilCatchThrustOf sx sz yw = ?m * 1.5 * 0.5"
  proof
    assume h: "?m > 0.001 \<and> ?d = ?m"
    then have "?d / ?m = 1" by simp
    then have "?u = 1" using h by (simp add: uphillRatioOf_def)
    then show "foilCatchThrustOf sx sz yw = ?m * 1.5 * 0.5" by (simp add: f)
  qed
  have c4: "?m \<le> 0.001 \<longrightarrow> foilCatchThrustOf sx sz yw = ?m * 1.5"
    by (simp add: f uphillRatioOf_def)
  have lo: "?m * 1.5 * 0.5 \<le> ?m * 1.5 * (1 - 0.5 * ?u)"
    using m u by (intro mult_left_mono) auto
  have hi: "?m * 1.5 * (1 - 0.5 * ?u) \<le> ?m * 1.5 * 1"
    using m u by (intro mult_left_mono) auto
  have nn: "0 \<le> ?m * 1.5 * 0.5" using m by simp
  show ?thesis using c1 c2 c3 c4 lo hi nn unfolding f by simp
qed

theorem foilCatch_amended_witness:
  "slopeMagOf 0 (- 1) > 0.001 \<and> slopeInDirectionOf 0 (- 1) 0 = slopeMagOf 0 (- 1)
   \<and> foilCatchThrustOf 0 (- 1) 0 = 0.75
   \<and> slopeInDirectionOf 0 1 0 \<le> 0 \<and> foilCatchThrustOf 0 1 0 = 1.5
   \<and> slopeMagOf 0 (- 0.0005) \<le> 0.001 \<and> foilCatchThrustOf 0 (- 0.0005) 0 = 0.00075"
proof -
  have m: "slopeMagOf 0 (- 1) = 1" "slopeMagOf 0 1 = 1" "slopeMagOf 0 (- 0.0005) = 1 / 2000"
    using sqrt_small by (simp_all add: slopeMagOf_def)
  have d: "slopeInDirectionOf 0 (- 1) 0 = 1" "slopeInDirectionOf 0 1 0 = - 1"
    by (simp_all add: slopeInDirectionOf_def Let_def)
  show ?thesis
    using foilCatch_amended[of 0 "- 1" 0] foilCatch_amended[of 0 1 0]
      foilCatch_amended[of 0 "- 0.0005" 0] m d
    by simp
qed

section \<open>Speed integration\<close>

lemma clampSpeed_Fin: "clampSpeed (Fin r) = Fin (max 1 (min 25 r))"
  by (simp add: clampSpeed_def clamp_def Math_max_def Math_min_def max_def min_def)

lemma clampSpeed_guardSpeed_Fin:
  "\<exists>r. clampSpeed (guardSpeed v) = Fin r \<and> 1 \<le> r \<and> r \<le> 25"
  by (cases v) (simp_all add: guardSpeed_def clampSpeed_def clamp_def Math_max_def Math_min_def)

lemma newSpeed_range:
  "1 \<le> finiteValue (clampSpeed (guardSpeed v)) \<and> finiteValue (clampSpeed (guardSpeed v)) \<le> 25"
  using clampSpeed_guardSpeed_Fin[of v] by (auto simp: finiteValue_def)

lemma rate_zero_dt: "rateOf a a 0 = NaN"
  by (simp add: rateOf_def infOfSign_def)

lemma integrateSpeed_NaN: "integrateSpeed spd w f (pumpThrustOf NaN NaN) d dt = NaN"
  by (simp add: integrateSpeed_def pumpThrustOf_def jsub_def)

lemma physics_speed_range:
  "1 \<le> speed (fst (physics s slope dt keys)) \<and> speed (fst (physics s slope dt keys)) \<le> 25"
  using newSpeed_range by (simp add: physics_def Let_def split: prod.split)

lemma physics_zero_dt: "speed (fst (physics s slope 0 keys)) = 1"
  by (simp add: physics_def Let_def lerp_def rate_zero_dt integrateSpeed_NaN guardSpeed_def
      clampSpeed_Fin finiteValue_def split: prod.split)

text \<open>
  In a frame the rates are taken between a value and its own \<open>lerp\<close>, so the
  integrated speed is NaN when the timestep is zero and finite otherwise: it is
  never infinite there.
\<close>

lemma frame_rate:
  "rateOf (lerp a target (dt * c)) a dt =
     (if dt = 0 then NaN else Fin (\<bar>lerp a target (dt * c) - a\<bar> / dt))"
  by (simp add: rateOf_def lerp_def infOfSign_def)

lemma frame_raw_speed:
  "\<exists>r. integrateSpeed spd w f
          (pumpThrustOf (rateOf (lerp a ta (dt * 5.0)) a dt) (rateOf (lerp b tb (dt * 6.0)) b dt))
          d dt = (if dt = 0 then NaN else Fin r)"
  by (simp add: frame_rate integrateSpeed_def pumpThrustOf_def jsub_def)

lemma rawSpeed_form: "\<exists>r. rawSpeed s slope dt keys = (if dt = 0 then NaN else Fin r)"
  by (simp add: rawSpeed_def Let_def frame_rate integrateSpeed_def pumpThrustOf_def jsub_def
      split: prod.split)

lemma physics_speed_raw:
  "speed (fst (physics s slope dt keys)) =
     finiteValue (clampSpeed (guardSpeed (rawSpeed s slope dt keys)))"
  by (simp add: physics_def rawSpeed_def Let_def split: prod.split)

text \<open>
  The guard tests \<open>isNaN\<close>, which an infinity does not satisfy; the clamp alone
  bounds an infinity, and returns NaN for NaN.
\<close>

lemma guard_and_clamp_values:
  "guardSpeed NaN = Fin 0 \<and> guardSpeed PosInf = PosInf \<and> guardSpeed NegInf = NegInf
   \<and> clampSpeed PosInf = Fin 25 \<and> clampSpeed NegInf = Fin 1 \<and> clampSpeed NaN = NaN"
  by (simp add: guardSpeed_def clampSpeed_def clamp_def Math_max_def Math_min_def)

text \<open>
  Claim C6.  On every frame, if the speed the integration line has computed is
  not finite, the next line resets it to 0 before the clamp, and the frame
  stores 1, the clamp of 0.  Whatever the integration line has computed, the
  speed after the clamp is a finite number in \<open>[1, 25]\<close> and it is the speed the
  frame stores.  A frame with a zero timestep is such a frame: its rates are
  \<open>0 / 0\<close>, and the computed speed is NaN.
\<close>

theorem speed_guard:
  "speed (fst (physics s slope dt keys)) =
     finiteValue (clampSpeed (guardSpeed (rawSpeed s slope dt keys)))
   \<and> (\<not> isFiniteNum (rawSpeed s slope dt keys) \<longrightarrow>
        guardSpeed (rawSpeed s slope dt keys) = Fin 0
        \<and> clampSpeed (guardSpeed (rawSpeed s slope dt keys)) = Fin 1
        \<and> speed (fst (physics s slope dt keys)) = 1)
   \<and> (isFiniteNum (rawSpeed s slope dt keys) \<longrightarrow>
        guardSpeed (rawSpeed s slope dt keys) = rawSpeed s slope dt keys)
   \<and> (\<exists>r. clampSpeed (guardSpeed (rawSpeed s slope dt keys)) = Fin r \<and> 1 \<le> r \<and> r \<le> 25
          \<and> speed (fst (physics s slope dt keys)) = r)
   \<and> rawSpeed s slope 0 keys = NaN"
proof -
  let ?raw = "rawSpeed s slope dt keys"
  obtain r where r: "?raw = (if dt = 0 then NaN else Fin r)"
    using rawSpeed_form[of s slope dt keys] by blast
  have st: "speed (fst (physics s slope dt keys)) = finiteValue (clampSpeed (guardSpeed ?raw))"
    by (rule physics_speed_raw)
  have nf: "\<not> isFiniteNum ?raw \<longrightarrow>
        guardSpeed ?raw = Fin 0 \<and> clampSpeed (guardSpeed ?raw) = Fin 1
        \<and> speed (fst (physics s slope dt keys)) = 1"
  proof
    assume "\<not> isFiniteNum ?raw"
    then have "?raw = NaN" using r by (simp split: if_splits)
    then show "guardSpeed ?raw = Fin 0 \<and> clampSpeed (guardSpeed ?raw) = Fin 1
        \<and> speed (fst (physics s slope dt keys)) = 1"
      unfolding st by (simp add: guardSpeed_def clampSpeed_Fin finiteValue_def)
  qed
  have fi: "isFiniteNum ?raw \<longrightarrow> guardSpeed ?raw = ?raw"
    by (cases ?raw) (simp_all add: guardSpeed_def)
  obtain c where c: "clampSpeed (guardSpeed ?raw) = Fin c" "1 \<le> c" "c \<le> 25"
    using clampSpeed_guardSpeed_Fin[of ?raw] by blast
  have ex: "\<exists>r. clampSpeed (guardSpeed ?raw) = Fin r \<and> 1 \<le> r \<and> r \<le> 25
          \<and> speed (fst (physics s slope dt keys)) = r"
    using c st by (simp add: finiteValue_def)
  have z: "rawSpeed s slope 0 keys = NaN"
    using rawSpeed_form[of s slope 0 keys] by simp
  show ?thesis using st nf fi ex z by blast
qed

theorem speed_guard_witness:
  "\<not> isFiniteNum (rawSpeed initialPhysState (0, 0) 0 (\<lambda>_. False))
   \<and> guardSpeed (rawSpeed initialPhysState (0, 0) 0 (\<lambda>_. False)) = Fin 0
   \<and> clampSpeed (guardSpeed (rawSpeed initialPhysState (0, 0) 0 (\<lambda>_. False))) = Fin 1
   \<and> speed (fst (physics initialPhysState (0, 0) 0 (\<lambda>_. False))) = 1
   \<and> isFiniteNum (rawSpeed initialPhysState (0, 0) 0.1 (\<lambda>_. False))
   \<and> guardSpeed (rawSpeed initialPhysState (0, 0) 0.1 (\<lambda>_. False))
       = rawSpeed initialPhysState (0, 0) 0.1 (\<lambda>_. False)"
proof -
  have a: "\<not> isFiniteNum (rawSpeed initialPhysState (0, 0) 0 (\<lambda>_. False))"
    using rawSpeed_form[of initialPhysState "(0, 0)" 0 "\<lambda>_. False"] by simp
  obtain r where "rawSpeed initialPhysState (0, 0) 0.1 (\<lambda>_. False) = Fin r"
    using rawSpeed_form[of initialPhysState "(0, 0)" "0.1" "\<lambda>_. False"] by auto
  then have b: "isFiniteNum (rawSpeed initialPhysState (0, 0) 0.1 (\<lambda>_. False))" by simp
  show ?thesis
    using speed_guard[of initialPhysState "(0, 0)" 0 "\<lambda>_. False"]
      speed_guard[of initialPhysState "(0, 0)" "0.1" "\<lambda>_. False"] a b
    by blast
qed

section \<open>Ground effect\<close>

lemma physics_vY:
  "vY (fst (physics s (sx, sz) dt keys)) =
     (vY s + ((speed (fst (physics s (sx, sz) dt keys)) / 10) * GRAVITY
              + pitch (fst (physics s (sx, sz) dt keys)) * speed (fst (physics s (sx, sz) dt keys)) * 3
              + groundEffectOf (height s)
              + slopeMagOf sx sz * GRAVITY * 0.2 - GRAVITY) * dt) * 0.85"
  by (simp add: physics_def Let_def)

text \<open>
  Claim C10.  The ground-effect term is zero for every height in \<open>[0.3, 1.0]\<close>,
  positive exactly when the height is below 0.3 and negative exactly when it is
  above 1.0.  With the height in the band, the vertical velocity after the
  physics step is the old one plus \<open>(baseLift + pitchLift + waveLift - GRAVITY) * dt\<close>,
  damped by 0.85: no ground-effect term takes part.
\<close>

theorem groundEffect_band:
  "(0.3 \<le> h \<and> h \<le> 1.0 \<longrightarrow> groundEffectOf h = 0)
   \<and> (0 < groundEffectOf h \<longleftrightarrow> h < 0.3)
   \<and> (groundEffectOf h < 0 \<longleftrightarrow> 1.0 < h)
   \<and> (h < 0.3 \<longrightarrow> groundEffectOf h = (0.3 - h) * 15.0)
   \<and> (1.0 < h \<longrightarrow> groundEffectOf h = - (h - 1.0) * 10.0)
   \<and> (0.3 \<le> height s \<and> height s \<le> 1.0 \<longrightarrow>
        vY (fst (physics s (sx, sz) dt keys)) =
          (vY s + ((speed (fst (physics s (sx, sz) dt keys)) / 10) * GRAVITY
                   + pitch (fst (physics s (sx, sz) dt keys)) * speed (fst (physics s (sx, sz) dt keys)) * 3
                   + slopeMagOf sx sz * GRAVITY * 0.2 - GRAVITY) * dt) * 0.85)"
proof -
  have a: "(0.3 \<le> h \<and> h \<le> 1.0 \<longrightarrow> groundEffectOf h = 0)
   \<and> (0 < groundEffectOf h \<longleftrightarrow> h < 0.3)
   \<and> (groundEffectOf h < 0 \<longleftrightarrow> 1.0 < h)
   \<and> (h < 0.3 \<longrightarrow> groundEffectOf h = (0.3 - h) * 15.0)
   \<and> (1.0 < h \<longrightarrow> groundEffectOf h = - (h - 1.0) * 10.0)"
    by (auto simp add: groundEffectOf_def Let_def)
  have z: "0.3 \<le> height s \<and> height s \<le> 1.0 \<longrightarrow> groundEffectOf (height s) = 0"
    by (auto simp add: groundEffectOf_def Let_def)
  show ?thesis using a z physics_vY[of s sx sz dt keys] by simp
qed

theorem groundEffect_band_witness:
  "(0.3::real) \<le> 0.5 \<and> (0.5::real) \<le> 1.0 \<and> groundEffectOf 0.5 = 0
   \<and> groundEffectOf 0.3 = 0 \<and> groundEffectOf 1.0 = 0
   \<and> (0.25::real) < 0.3 \<and> groundEffectOf 0.25 = 0.75
   \<and> (1.0::real) < 1.2 \<and> groundEffectOf 1.2 = - 2
   \<and> height initialPhysState = 0.4
   \<and> vY (fst (physics initialPhysState (0, 0) 0.1 (\<lambda>_. False))) =
       (vY initialPhysState
         + ((speed (fst (physics initialPhysState (0, 0) 0.1 (\<lambda>_. False))) / 10) * GRAVITY
            + pitch (fst (physics initialPhysState (0, 0) 0.1 (\<lambda>_. False)))
              * speed (fst (physics initialPhysState (0, 0) 0.1 (\<lambda>_. False))) * 3
            + slopeMagOf 0 0 * GRAVITY * 0.2 - GRAVITY) * 0.1) * 0.85"
proof -
  have h: "height initialPhysState = 0.4" by (simp add: initialPhysState_def)
  show ?thesis
    using groundEffect_band[of "0.5" initialPhysState 0 0 "0.1" "\<lambda>_. False"]
      groundEffect_band[of "0.3" initialPhysState 0 0 "0.1" "\<lambda>_. False"]
      groundEffect_band[of "1.0" initialPhysState 0 0 "0.1" "\<lambda>_. False"]
      groundEffect_band[of "0.25" initialPhysState 0 0 "0.1" "\<lambda>_. False"]
      groundEffect_band[of "1.2" initialPhysState 0 0 "0.1" "\<lambda>_. False"] h
    by simp
qed

section \<open>The frame callback\<close>

lemma useFrame_not_playing:
  "gameStateProp p \<noteq> Playing \<Longrightarrow>
   useFrame p t d k = p\<lparr>clockRef := t, sprayStateRef := (sprayStateRef p)\<lparr>isPlaying := False\<rparr>\<rparr>"
  by (simp add: useFrame_def Let_def)

lemma useFrame_no_group:
  "groupRef p = None \<Longrightarrow>
   useFrame p t d k = p\<lparr>clockRef := t, sprayStateRef := (sprayStateRef p)\<lparr>isPlaying := False\<rparr>\<rparr>"
  by (simp add: useFrame_def Let_def)

lemma movement_fields:
  "height (fst (movement s g dt t sn)) = height s \<and> speed (fst (movement s g dt t sn)) = speed s
   \<and> pitch (fst (movement s g dt t sn)) = pitch s \<and> roll (fst (movement s g dt t sn)) = roll s
   \<and> vY (fst (movement s g dt t sn)) = vY s"
  by (simp add: movement_def Let_def split: prod.split)


lemma physics_pitch:
  "pitch (fst (physics s slope dt keys)) = lerp (pitch s) (targetPitchOf keys) (dt * 5)"
  by (simp add: physics_def Let_def split: prod.split)

lemma useFrame_playing_crash:
  assumes "gameStateProp p = Playing" "groupRef p = Some g"
    and "physics (stateRef p) (slopeAt g t) (min d 0.1) k = (s, rr)"
    and "fst (crashDetection (height s))"
  shows "useFrame p t d k =
     p\<lparr>clockRef := t, stateRef := s,
       sprayStateRef := (sprayStateRef p)\<lparr>isPlaying := False\<rparr>,
       crashReason := snd (crashDetection (height s)), gameState := Gameover\<rparr>"
  using assms
  by (simp add: useFrame_def Let_def setGameState_def setCrashReason_def case_prod_beta)

lemma useFrame_playing_ok:
  assumes "gameStateProp p = Playing" "groupRef p = Some g"
    and "physics (stateRef p) (slopeAt g t) (min d 0.1) k = (s, rr)"
    and "\<not> fst (crashDetection (height s))"
  shows "gameState (useFrame p t d k) = gameState p
    \<and> crashReason (useFrame p t d k) = crashReason p
    \<and> gameStateProp (useFrame p t d k) = Playing
    \<and> stateRef (useFrame p t d k) = fst (movement s g (min d 0.1) t (isSnappingOf k))"
  using assms
  by (simp add: useFrame_def Let_def case_prod_beta)

lemma useFrame_stateRef_fields:
  assumes "gameStateProp p = Playing" "groupRef p = Some g"
  shows "height (stateRef (useFrame p t d k)) =
      height (fst (physics (stateRef p) (slopeAt g t) (min d 0.1) k))
    \<and> speed (stateRef (useFrame p t d k)) =
      speed (fst (physics (stateRef p) (slopeAt g t) (min d 0.1) k))
    \<and> pitch (stateRef (useFrame p t d k)) =
      pitch (fst (physics (stateRef p) (slopeAt g t) (min d 0.1) k))
    \<and> gameStateProp (useFrame p t d k) = Playing"
proof -
  obtain s rr where ph: "physics (stateRef p) (slopeAt g t) (min d 0.1) k = (s, rr)"
    by (cases "physics (stateRef p) (slopeAt g t) (min d 0.1) k")
  show ?thesis
  proof (cases "fst (crashDetection (height s))")
    case True
    then show ?thesis using useFrame_playing_crash[OF assms ph] ph assms(1) by simp
  next
    case False
    then show ?thesis using useFrame_playing_ok[OF assms ph] ph movement_fields by simp
  qed
qed

lemma useFrame_height:
  assumes "gameStateProp p = Playing" "groupRef p = Some g"
  shows "height (stateRef (useFrame p t d k)) =
    height (fst (physics (stateRef p) (slopeAt g t) (min d 0.1) k))"
  using useFrame_stateRef_fields[OF assms] by blast

lemma useFrame_speed:
  assumes "gameStateProp p = Playing" "groupRef p = Some g"
  shows "speed (stateRef (useFrame p t d k)) =
    speed (fst (physics (stateRef p) (slopeAt g t) (min d 0.1) k))"
  using useFrame_stateRef_fields[OF assms] by blast

lemma useFrame_pitch:
  assumes "gameStateProp p = Playing" "groupRef p = Some g"
  shows "pitch (stateRef (useFrame p t d k)) =
    lerp (pitch (stateRef p)) (targetPitchOf k) (min d 0.1 * 5)"
  using useFrame_stateRef_fields[OF assms, of t d k] physics_pitch by simp

lemma physics_zero_dt_height:
  "vY s = 0 \<Longrightarrow> height (fst (physics s slope 0 keys)) = height s"
  by (simp add: physics_def Let_def case_prod_beta)

lemma riderAtHeight_tick:
  "gameStateProp (riderAtHeight h) = Playing \<and> groupRef (riderAtHeight h) = groupRef initialPlayer
   \<and> height (stateRef (useFrame (riderAtHeight h) 0 0 (\<lambda>_. False))) = h"
proof -
  obtain g where g: "groupRef (riderAtHeight h) = Some g"
    by (simp add: riderAtHeight_def initialPlayer_def)
  have p: "gameStateProp (riderAtHeight h) = Playing" by (simp add: riderAtHeight_def)
  have "height (stateRef (useFrame (riderAtHeight h) 0 0 (\<lambda>_. False))) =
     height (fst (physics (stateRef (riderAtHeight h)) (slopeAt g 0) (min 0 0.1) (\<lambda>_. False)))"
    by (rule useFrame_height[OF p g])
  also have "\<dots> = h"
    using physics_zero_dt_height[of "stateRef (riderAtHeight h)"]
    by (simp add: riderAtHeight_def initialPhysState_def)
  finally show ?thesis using p by (simp add: riderAtHeight_def)
qed

section \<open>Crash check\<close>

text \<open>
  Claim C1.  On a frame that runs the physics (its callback sees the game state
  \<open>playing\<close> and the group is mounted), with \<open>h\<close> the height the frame has
  stored: if \<open>h \<le> -0.05\<close> the frame sets the game state to \<open>gameover\<close> and the
  reason to \<open>TOUCHDOWN! Board dug into the water.\<close>; otherwise, if \<open>h \<ge> 1.3\<close>, it
  sets the game state to \<open>gameover\<close> and the reason to
  \<open>BREACHED! Foil wing came out of the water.\<close>; otherwise it sets neither.
  Heights of -0.06 and 1.35 are a touchdown and a breach.
\<close>

theorem crash_check:
  assumes "gameStateProp p = Playing" "groupRef p = Some g"
  shows "(gameState (useFrame p t d k), crashReason (useFrame p t d k)) =
      (if height (stateRef (useFrame p t d k)) \<le> - 0.05
         then (Gameover, ''TOUCHDOWN! Board dug into the water.'')
       else if height (stateRef (useFrame p t d k)) \<ge> 1.3
         then (Gameover, ''BREACHED! Foil wing came out of the water.'')
       else (gameState p, crashReason p))
    \<and> crashDetection (- 0.06) = (True, ''TOUCHDOWN! Board dug into the water.'')
    \<and> crashDetection 1.35 = (True, ''BREACHED! Foil wing came out of the water.'')"
proof -
  obtain s rr where ph: "physics (stateRef p) (slopeAt g t) (min d 0.1) k = (s, rr)"
    by (cases "physics (stateRef p) (slopeAt g t) (min d 0.1) k")
  have h: "height (stateRef (useFrame p t d k)) = height s"
    using useFrame_height[OF assms, of t d k] ph by simp
  have sc: "crashDetection (- 0.06) = (True, ''TOUCHDOWN! Board dug into the water.'')"
    "crashDetection 1.35 = (True, ''BREACHED! Foil wing came out of the water.'')"
    by (simp_all add: crashDetection_def)
  show ?thesis
  proof (cases "fst (crashDetection (height s))")
    case True
    have "useFrame p t d k =
       p\<lparr>clockRef := t, stateRef := s,
         sprayStateRef := (sprayStateRef p)\<lparr>isPlaying := False\<rparr>,
         crashReason := snd (crashDetection (height s)), gameState := Gameover\<rparr>"
      by (rule useFrame_playing_crash[OF assms ph True])
    then have "gameState (useFrame p t d k) = Gameover"
      "crashReason (useFrame p t d k) = snd (crashDetection (height s))"
      by simp_all
    then show ?thesis using True sc unfolding h
      by (simp add: crashDetection_def split: if_splits)
  next
    case False
    then show ?thesis using useFrame_playing_ok[OF assms ph False] sc unfolding h
      by (simp add: crashDetection_def split: if_splits)
  qed
qed

theorem crash_check_witness:
  "gameStateProp (riderAtHeight (- 0.06)) = Playing
   \<and> groupRef (riderAtHeight (- 0.06)) = groupRef initialPlayer
   \<and> height (stateRef (useFrame (riderAtHeight (- 0.06)) 0 0 (\<lambda>_. False))) = - 0.06
   \<and> gameState (useFrame (riderAtHeight (- 0.06)) 0 0 (\<lambda>_. False)) = Gameover
   \<and> crashReason (useFrame (riderAtHeight (- 0.06)) 0 0 (\<lambda>_. False)) = ''TOUCHDOWN! Board dug into the water.''
   \<and> height (stateRef (useFrame (riderAtHeight 1.35) 0 0 (\<lambda>_. False))) = 1.35
   \<and> gameState (useFrame (riderAtHeight 1.35) 0 0 (\<lambda>_. False)) = Gameover
   \<and> crashReason (useFrame (riderAtHeight 1.35) 0 0 (\<lambda>_. False)) = ''BREACHED! Foil wing came out of the water.''
   \<and> height (stateRef (useFrame (riderAtHeight 0.4) 0 0 (\<lambda>_. False))) = 0.4
   \<and> gameState (useFrame (riderAtHeight 0.4) 0 0 (\<lambda>_. False)) = Playing"
proof -
  obtain g0 where g0: "groupRef initialPlayer = Some g0" by (simp add: initialPlayer_def)
  note t = riderAtHeight_tick
  have g': "groupRef (riderAtHeight h) = Some g0" for h using t[of h] g0 by simp
  have gs: "gameState (riderAtHeight h) = Playing" for h by (simp add: riderAtHeight_def)
  show ?thesis
    using crash_check[of "riderAtHeight (- 0.06)" g0 0 0 "\<lambda>_. False"]
      crash_check[of "riderAtHeight 1.35" g0 0 0 "\<lambda>_. False"]
      crash_check[of "riderAtHeight 0.4" g0 0 0 "\<lambda>_. False"]
      t[of "- 0.06"] t[of "1.35"] t[of "0.4"] g' gs
    by simp
qed

section \<open>The speed invariant\<close>

lemma useFrame_speed_inv:
  assumes "1 \<le> speed (stateRef p) \<and> speed (stateRef p) \<le> 25"
  shows "1 \<le> speed (stateRef (useFrame p t d k)) \<and> speed (stateRef (useFrame p t d k)) \<le> 25"
proof (cases "gameStateProp p = Playing")
  case False
  then show ?thesis using assms by (simp add: useFrame_not_playing)
next
  case True
  show ?thesis
  proof (cases "groupRef p")
    case None
    then show ?thesis using assms by (simp add: useFrame_no_group)
  next
    case (Some g)
    show ?thesis
      using useFrame_speed[OF True Some, of t d k] physics_speed_range by simp
  qed
qed

lemma resetEffect_state:
  "stateRef (resetEffect p) = (if gameStateProp p = Playing then initialPhysState else stateRef p)
   \<and> gameStateProp (resetEffect p) = gameStateProp p \<and> gameState (resetEffect p) = gameState p
   \<and> crashReason (resetEffect p) = crashReason p
   \<and> (gameStateProp p \<noteq> Playing \<longrightarrow> groupRef (resetEffect p) = groupRef p)"
  by (simp add: resetEffect_def Let_def split: option.split)

lemma commitRender_speed_inv:
  assumes "1 \<le> speed (stateRef p) \<and> speed (stateRef p) \<le> 25"
  shows "1 \<le> speed (stateRef (commitRender p)) \<and> speed (stateRef (commitRender p)) \<le> 25"
  using assms resetEffect_state[of "p\<lparr>gameStateProp := gameState p\<rparr>"]
  by (simp add: commitRender_def initialPhysState_def)

lemma stepEvent_speed_inv:
  assumes "1 \<le> speed (stateRef p) \<and> speed (stateRef p) \<le> 25"
  shows "1 \<le> speed (stateRef (stepEvent p e)) \<and> speed (stateRef (stepEvent p e)) \<le> 25"
proof (cases e)
  case (Frame t d k)
  then show ?thesis using useFrame_speed_inv[OF assms] by simp
next
  case ClickPlay
  then show ?thesis using assms by (simp add: setGameState_def)
next
  case Render
  then show ?thesis using commitRender_speed_inv[OF assms] by simp
qed

lemma run_speed_inv:
  "1 \<le> speed (stateRef p) \<and> speed (stateRef p) \<le> 25 \<Longrightarrow>
   1 \<le> speed (stateRef (run p evs)) \<and> speed (stateRef (run p evs)) \<le> 25"
proof (induction evs arbitrary: p)
  case Nil
  then show ?case by simp
next
  case (Cons e evs)
  have "1 \<le> speed (stateRef (stepEvent p e)) \<and> speed (stateRef (stepEvent p e)) \<le> 25"
    by (rule stepEvent_speed_inv[OF Cons.prems])
  then show ?case using Cons.IH by simp
qed

text \<open>
  Claim C2.  In every state the component reaches from its initial state by
  frames, clicks on the start and retry buttons and renders, in any order, the
  speed is in \<open>[1, 25]\<close>.  The initial speed and the speed after a reset are 12,
  and the physics step of every frame ends with the clamped speed.
\<close>

theorem speed_clamp_invariant:
  "1 \<le> speed (stateRef (run initialPlayer evs)) \<and> speed (stateRef (run initialPlayer evs)) \<le> 25
   \<and> speed (stateRef initialPlayer) = 12
   \<and> speed (stateRef (resetEffect (p\<lparr>gameStateProp := Playing\<rparr>))) = 12
   \<and> 1 \<le> speed (fst (physics s slope dt keys)) \<and> speed (fst (physics s slope dt keys)) \<le> 25"
proof -
  have i: "speed (stateRef initialPlayer) = 12"
    by (simp add: initialPlayer_def initialPhysState_def)
  have r: "speed (stateRef (resetEffect (p\<lparr>gameStateProp := Playing\<rparr>))) = 12"
    by (simp add: resetEffect_def Let_def initialPhysState_def split: option.split)
  have "1 \<le> speed (stateRef (run initialPlayer evs)) \<and> speed (stateRef (run initialPlayer evs)) \<le> 25"
    by (rule run_speed_inv) (simp add: i)
  then show ?thesis using i r physics_speed_range[of s slope dt keys] by simp
qed

section \<open>Freeze after a crash\<close>



text \<open>
  A frame that follows a crashing frame with no render in between runs the
  physics again: whenever its timestep is positive and the pitch is not at its
  target already, it changes the pitch.
\<close>

lemma stale_frame_mutates:
  assumes "gameStateProp p = Playing" "groupRef p = Some g"
    and "fst (crashDetection (height (stateRef (useFrame p t d k))))"
    and "0 < d2" and "pitch (stateRef (useFrame p t d k)) \<noteq> targetPitchOf k2"
  shows "pitch (stateRef (useFrame (useFrame p t d k) t2 d2 k2))
    \<noteq> pitch (stateRef (useFrame p t d k))"
proof -
  let ?q = "useFrame p t d k"
  obtain s rr where ph: "physics (stateRef p) (slopeAt g t) (min d 0.1) k = (s, rr)"
    by (cases "physics (stateRef p) (slopeAt g t) (min d 0.1) k")
  have h: "height (stateRef ?q) = height s"
    using useFrame_height[OF assms(1,2), of t d k] ph by simp
  have cr: "fst (crashDetection (height s))" using assms(3) h by simp
  have u: "?q =
       p\<lparr>clockRef := t, stateRef := s,
         sprayStateRef := (sprayStateRef p)\<lparr>isPlaying := False\<rparr>,
         crashReason := snd (crashDetection (height s)), gameState := Gameover\<rparr>"
    by (rule useFrame_playing_crash[OF assms(1,2) ph cr])
  have q: "gameStateProp ?q = Playing" "groupRef ?q = Some g" using u assms(1,2) by simp_all
  define c where "c = min d2 0.1 * 5"
  have c: "0 < c" using assms(4) by (simp add: c_def)
  have "pitch (stateRef (useFrame ?q t2 d2 k2)) = lerp (pitch (stateRef ?q)) (targetPitchOf k2) c"
    unfolding c_def by (rule useFrame_pitch[OF q])
  then have e: "pitch (stateRef (useFrame ?q t2 d2 k2)) - pitch (stateRef ?q)
      = c * (targetPitchOf k2 - pitch (stateRef ?q))"
    by (simp add: lerp_def algebra_simps)
  have n: "c * (targetPitchOf k2 - pitch (stateRef ?q)) \<noteq> 0"
    using c assms(5) by simp
  show ?thesis
  proof
    assume "pitch (stateRef (useFrame ?q t2 d2 k2)) = pitch (stateRef ?q)"
    then have "c * (targetPitchOf k2 - pitch (stateRef ?q)) = 0" using e by simp
    then show False using n by blast
  qed
qed




section \<open>Physics side against display side\<close>

lemma sum_upto8:
  fixes f :: "nat \<Rightarrow> real"
  shows "(\<Sum>m<8. f m) = f 0 + f (Suc 0) + f 2 + f 3 + f 4 + f 5 + f 6 + f 7"
proof -
  have "{..<8::nat} = {0, 1, 2, 3, 4, 5, 6, 7}" by auto
  then show ?thesis by simp
qed

lemma sin_coeff_values:
  "sin_coeff (Suc 0) = 1" "sin_coeff 2 = 0" "sin_coeff 3 = - 1 / 6"
  "sin_coeff 4 = 0" "sin_coeff 5 = 1 / 120" "sin_coeff 6 = 0" "sin_coeff 7 = - 1 / 5040"
  by (simp_all add: sin_coeff_def fact_numeral)

lemma sin_poly_bound:
  "sin (x::real) \<le> x - x^3 / 6 + x^5 / 120 - x^7 / 5040 + \<bar>x\<bar>^8 / 40320"
proof -
  have "\<bar>sin x - (\<Sum>m<8. sin_coeff m * x ^ m)\<bar> \<le> inverse (fact 8) * \<bar>x\<bar> ^ 8"
    by (rule Maclaurin_sin_bound)
  moreover have "(\<Sum>m<8. sin_coeff m * x ^ m) = x - x^3 / 6 + x^5 / 120 - x^7 / 5040"
    by (simp add: sum_upto8 sin_coeff_values)
  moreover have "inverse (fact 8) * \<bar>x\<bar> ^ 8 = \<bar>x\<bar>^8 / (40320::real)"
    by (simp add: fact_numeral)
  ultimately show ?thesis by linarith
qed

lemma pi_neq_approx: "pi \<noteq> 3.14159"
proof
  assume p: "pi = 3.14159"
  have "sin (pi / 6) = 1 / 2" by (rule sin_30)
  then have "sin (3.14159 / 6 :: real) = 1 / 2" unfolding p .
  then have h: "sin (314159 / 600000 :: real) = 1 / 2" by simp
  have "sin (314159 / 600000 :: real) < 1 / 2"
    using sin_poly_bound[of "314159 / 600000"] by (simp add: power_divide)
  then show False using h by simp
qed

lemma wave_indices: "[0..<WAVE_COUNT] = [0, 1, 2]"
  by (simp add: WAVE_COUNT_def WAVES_def upt_rec)

lemma shader_indices: "[0..<SHADER_WAVE_COUNT] = [0, 1, 2]"
  by (simp add: SHADER_WAVE_COUNT_def upt_rec)

lemma depth_origin: "getDepth 0 0 = 10"
  by (simp add: getDepth_def DEPTH_SHALLOW_def DEPTH_DEEP_def SHORE_ANGLE_def
      SHORE_Z_CENTER_def DEPTH_GRADIENT_def Let_def)

lemma shoal_origin: "effectiveShoal i 0 0 = 1"
  by (simp add: effectiveShoal_def depth_origin DEPTH_DEEP_def Let_def)

lemma waveF_origin: "waveF i 0 0 0 = 0"
  by (simp add: waveF_def Let_def)

lemma waveQ_origin:
  "waveQ 0 0 0 = 5 / (12 * pi)" "waveQ 1 0 0 = 1 / (2 * pi)" "waveQ 2 0 0 = 8 / (15 * pi)"
proof -
  have p: "0 < pi" "2 \<le> pi" using pi_gt_zero pi_ge_two by auto
  have a: "waveSteepness 0 0 0 / (waveK 0 * waveA 0 0 0 * real WAVE_COUNT) = 5 / (12 * pi)"
    by (simp add: waveSteepness_def waveK_def waveA_def shoal_origin WAVE_COUNT_def WAVES_def)
  have b: "waveSteepness 1 0 0 / (waveK 1 * waveA 1 0 0 * real WAVE_COUNT) = 1 / (2 * pi)"
    by (simp add: waveSteepness_def waveK_def waveA_def shoal_origin WAVE_COUNT_def WAVES_def)
  have c: "waveSteepness 2 0 0 / (waveK 2 * waveA 2 0 0 * real WAVE_COUNT) = 8 / (15 * pi)"
    by (simp add: waveSteepness_def waveK_def waveA_def shoal_origin WAVE_COUNT_def WAVES_def)
  have a': "5 / (12 * pi) \<le> 1 / 2" "0 \<le> 5 / (12 * pi)" using p by (simp_all add: divide_le_eq)
  have b': "1 / (2 * pi) \<le> 1 / 2" "0 \<le> 1 / (2 * pi)" using p by (simp_all add: divide_le_eq)
  have c': "8 / (15 * pi) \<le> 1 / 2" "0 \<le> 8 / (15 * pi)" using p by (simp_all add: divide_le_eq)
  show "waveQ 0 0 0 = 5 / (12 * pi)" unfolding waveQ_def a using a' by (simp add: max_def min_def)
  show "waveQ 1 0 0 = 1 / (2 * pi)" unfolding waveQ_def b using b' by (simp add: max_def min_def)
  show "waveQ 2 0 0 = 8 / (15 * pi)" unfolding waveQ_def c using c' by (simp add: max_def min_def)
qed

lemma cpu_origin_x: "fst (gerstnerDisplace 0 0 0) = 7 / (500 * pi)"
proof -
  have l: "fst (waveLoop 0 0 0) = 7 / (500 * pi)"
    unfolding waveLoop_def wave_indices
    by (simp add: waveBody_def Let_def waveF_origin waveQ_origin waveQ_origin(2)[unfolded One_nat_def]
        waveA_def shoal_origin WAVES_def field_simps)
  have "breakStrengthAt 0 0 = 0"
    by (simp add: breakStrengthAt_def depth_origin smoothstep_def Let_def)
  then have "gerstnerDisplace 0 0 0 = waveLoop 0 0 0"
    by (simp add: gerstnerDisplace_def breakingFold_def Let_def split: prod.split)
  then show ?thesis using l by simp
qed

lemma shader_depth_origin: "shaderGetDepth 0 0 = 10"
  by (simp add: shaderGetDepth_def glsl_clamp_def uDepthShallow_def uDepthDeep_def uShoreAngle_def
      uShoreZCenter_def uDepthGradient_def Let_def)

lemma shader_shoal_origin: "shaderEffectiveShoal i 0 0 = 1"
  by (simp add: shaderEffectiveShoal_def shader_depth_origin uDepthDeep_def Let_def)

lemma shaderF_origin: "shaderF i 0 0 0 = 0"
  by (simp add: shaderF_def)

lemma shaderQ_origin:
  "shaderQ 0 0 0 = 500000 / 3769908" "shaderQ (Suc 0) 0 0 = 100000 / 628318"
  "shaderQ 2 0 0 = 800000 / 4712385"
  by (simp_all add: shaderQ_def glsl_clamp_def shaderSteepness_def shaderK_def shaderA_def
      shader_shoal_origin SHADER_WAVE_COUNT_def uWaveSteepness_def uWaveLength_def
      uWaveAmplitude_def)

lemma gpu_origin_x: "fst (gerstnerWaves (0, 0, 0) 0) = 7 / (500 * 3.14159)"
proof -
  have l: "fst (fold (shaderBody 0 0 0) [0..<SHADER_WAVE_COUNT] (0, 0, 0)) = 7 / (500 * 3.14159)"
    unfolding shader_indices
    by (simp add: shaderBody_def Let_def shaderF_origin shaderQ_origin shaderA_def
        shader_shoal_origin uWaveDirX_def uWaveAmplitude_def)
  have b: "glsl_smoothstep 5 2 (shaderGetDepth 0 0) = 0"
    by (simp add: shader_depth_origin glsl_smoothstep_def glsl_clamp_def Let_def)
  have "gerstnerWaves (0, 0, 0) 0 = fold (shaderBody 0 0 0) [0..<SHADER_WAVE_COUNT] (0, 0, 0)"
    unfolding gerstnerWaves_def by (simp add: b Let_def split: prod.split)
  then show ?thesis using l by simp
qed

lemma shader_agreement:
  "shaderGetDepth x z = getDepth x z \<and> glsl_smoothstep a b v = smoothstep a b v
   \<and> (i < 3 \<longrightarrow> shaderA i x z = waveA i x z \<and> shaderSteepness i x z = waveSteepness i x z
        \<and> shaderK i * (2 * pi) = waveK i * 6.28318)"
proof -
  have d: "shaderGetDepth x z = getDepth x z"
    by (simp add: shaderGetDepth_def getDepth_def glsl_clamp_def uDepthShallow_def uDepthDeep_def
        uShoreAngle_def uShoreZCenter_def uDepthGradient_def DEPTH_SHALLOW_def DEPTH_DEEP_def
        SHORE_ANGLE_def SHORE_Z_CENTER_def DEPTH_GRADIENT_def Let_def max_def min_def)
  have s: "glsl_smoothstep a b v = smoothstep a b v"
    by (simp add: glsl_smoothstep_def smoothstep_def glsl_clamp_def Let_def max_def min_def)
  have e: "shaderEffectiveShoal i x z = effectiveShoal i x z"
    by (simp add: shaderEffectiveShoal_def effectiveShoal_def d uDepthDeep_def DEPTH_DEEP_def)
  have i3: "i < 3 \<Longrightarrow> i = 0 \<or> i = Suc 0 \<or> i = 2" by auto
  have w: "i < 3 \<longrightarrow> shaderA i x z = waveA i x z \<and> shaderSteepness i x z = waveSteepness i x z
        \<and> shaderK i * (2 * pi) = waveK i * 6.28318"
    using i3
    by (auto simp add: shaderA_def waveA_def shaderSteepness_def waveSteepness_def shaderK_def
        waveK_def e uWaveAmplitude_def uWaveSteepness_def uWaveLength_def WAVES_def)
  show ?thesis using d s w by simp
qed

text \<open>
  Claim C3.  The claim is that the physics-side \<open>gerstnerDisplace\<close> and the
  shader's \<open>gerstnerWaves\<close> give the same position at every point.  At the point
  \<open>x = 0\<close>, \<open>z = 0\<close>, \<open>time = 0\<close> they do not: the physics side computes the wave
  numbers with \<open>2 * Math.PI\<close>, the shader with the constant \<open>6.28318\<close>, and the
  \<open>x\<close> coordinates are \<open>7 / (500 * pi)\<close> and \<open>7 / (500 * 3.14159)\<close>.
\<close>

theorem gerstner_cpu_gpu_diverge:
  "gerstnerDisplace 0 0 0 \<noteq> gerstnerWaves (0, 0, 0) 0
   \<and> fst (gerstnerDisplace 0 0 0) = 7 / (500 * pi)
   \<and> fst (gerstnerWaves (0, 0, 0) 0) = 7 / (500 * 3.14159)
   \<and> waveK 0 = 2 * pi / 25 \<and> shaderK 0 = 6.28318 / 25"
proof -
  have k: "waveK 0 = 2 * pi / 25" "shaderK 0 = 6.28318 / 25"
    by (simp_all add: waveK_def shaderK_def WAVES_def uWaveLength_def)
  have "(7::real) / (500 * pi) \<noteq> 7 / (500 * 3.14159)"
    using pi_neq_approx pi_gt_zero by (simp add: field_simps)
  then have "fst (gerstnerDisplace 0 0 0) \<noteq> fst (gerstnerWaves (0, 0, 0) 0)"
    unfolding cpu_origin_x gpu_origin_x .
  then have "gerstnerDisplace 0 0 0 \<noteq> gerstnerWaves (0, 0, 0) 0" by auto
  then show ?thesis using cpu_origin_x gpu_origin_x k by simp
qed

end
